theory Spec2Isabelle
  imports Main "HOL-Library.Monad_Syntax"
begin

section \<open>Python values used by the tools\<close>

text \<open>
  Python strings are modelled as \<^typ>\<open>string\<close>: lists of characters with code points
  below 256. The exceptions that the modelled code can let escape are values of
  \<open>py_exception\<close>; a computation that may raise returns \<open>py_exception + 'a\<close>.
\<close>

datatype py_exception = IndexError

text \<open>\<open>xs[0]\<close>: the first element, or IndexError on the empty list.\<close>

definition getitem0 :: "'a list \<Rightarrow> py_exception + 'a" where
  "getitem0 xs = (case xs of [] \<Rightarrow> Inl IndexError | x # _ \<Rightarrow> Inr x)"

text \<open>
  \<open>str.isspace\<close> on one character, for the code points below 256: tab, line feed,
  vertical tab, form feed, carriage return, the four separators 0x1C..0x1F, space,
  next line (0x85) and no-break space (0xA0).
\<close>

definition isspace :: "char \<Rightarrow> bool" where
  "isspace c = ((of_char c :: nat) \<in> {9, 10, 11, 12, 13, 28, 29, 30, 31, 32, 133, 160})"

text \<open>
  \<open>str.split()\<close> without a separator: one scan over the string that cuts at runs of
  whitespace and never yields an empty word. \<open>w\<close> is the word collected so far.
\<close>

fun split_from :: "string \<Rightarrow> string \<Rightarrow> string list" where
  "split_from w [] = (if w = [] then [] else [w])"
| "split_from w (c # cs) =
     (if isspace c then (if w = [] then split_from [] cs else w # split_from [] cs)
      else split_from (w @ [c]) cs)"

definition str_split :: "string \<Rightarrow> string list" where
  "str_split s = split_from [] s"

subsection \<open>\<open>json.dumps\<close> on a flat dictionary\<close>

text \<open>
  The dictionaries that \<open>execute_terminal_command\<close> serialises hold strings and
  integers only. A dictionary literal is an association list in the order written.
  \<open>json.dumps\<close> runs with its defaults: separators \<open>", "\<close> and \<open>": "\<close>, and
  \<open>ensure_ascii\<close>, under which every character outside \<open>' '..'~'\<close>, the quote and the
  backslash are escaped.
\<close>

datatype json_value = JString string | JInt int

type_synonym json_object = "(string \<times> json_value) list"

definition digit_char :: "nat \<Rightarrow> char" where
  "digit_char d = ''0123456789abcdef'' ! d"

fun str_nat :: "nat \<Rightarrow> string" where
  "str_nat n = (if n < 10 then [digit_char n] else str_nat (n div 10) @ [digit_char (n mod 10)])"

declare str_nat.simps [simp del]

definition str_int :: "int \<Rightarrow> string" where
  "str_int i = (if i < 0 then CHR ''-'' # str_nat (nat (- i)) else str_nat (nat i))"

definition hex4 :: "nat \<Rightarrow> string" where
  "hex4 n = [digit_char (n div 4096 mod 16), digit_char (n div 256 mod 16),
             digit_char (n div 16 mod 16), digit_char (n mod 16)]"

definition backslash :: char where
  "backslash = CHR 0x5C"

definition dquote :: char where
  "dquote = CHR 0x22"

definition escape_char :: "char \<Rightarrow> string" where
  "escape_char c =
     (if c = backslash then [backslash, backslash]
      else if c = dquote then [backslash, dquote]
      else if c = CHR 0x08 then [backslash, CHR ''b'']
      else if c = CHR 0x0C then [backslash, CHR ''f'']
      else if c = CHR 0x0A then [backslash, CHR ''n'']
      else if c = CHR 0x0D then [backslash, CHR ''r'']
      else if c = CHR 0x09 then [backslash, CHR ''t'']
      else if 32 \<le> (of_char c :: nat) \<and> (of_char c :: nat) \<le> 126 then [c]
      else [backslash, CHR ''u''] @ hex4 (of_char c))"

definition dumps_string :: "string \<Rightarrow> string" where
  "dumps_string s = [dquote] @ concat (map escape_char s) @ [dquote]"

fun dumps_value :: "json_value \<Rightarrow> string" where
  "dumps_value (JString s) = dumps_string s"
| "dumps_value (JInt i) = str_int i"

definition dumps_member :: "string \<times> json_value \<Rightarrow> string" where
  "dumps_member kv = dumps_string (fst kv) @ '': '' @ dumps_value (snd kv)"

fun join :: "string \<Rightarrow> string list \<Rightarrow> string" where
  "join sep [] = []"
| "join sep [x] = x"
| "join sep (x # y # ys) = x @ sep @ join sep (y # ys)"

definition json_dumps :: "json_object \<Rightarrow> string" where
  "json_dumps obj = ''{'' @ join '', '' (map dumps_member obj) @ ''}''"

section \<open>What a run can observe\<close>

text \<open>
  Messages of a transcript are dictionaries with string values, as the one the
  program appends: \<open>{'role': 'user', 'content': ...}\<close>.
\<close>

type_synonym message = "(string \<times> string) list"

definition user_message :: "string \<Rightarrow> message" where
  "user_message content = [(''role'', ''user''), (''content'', content)]"

section \<open>Stage output schemas\<close>

text \<open>The pydantic classes, field by field in the order declared.\<close>

record RequirementAnalysis =
  requirement_number :: int
  requirement_specification :: string
  relevant_available_files :: "string list"
  requirement_satisfied_already :: bool
  possible_to_satisfy_requirement :: "bool option"
  plan_of_action :: "string option"
  reasoning :: string

record AllRequirementsAnalysis =
  all_requirements_analysis :: "RequirementAnalysis list"
  can_satisfy_all_requirements :: bool
  any_user_input_required :: bool
  question_to_user :: "string option"

record PlannerStep =
  step_number :: int
  description :: string
  terminal_command :: string
  reasoning :: string

record AllPlannerSteps =
  all_planner_steps :: "PlannerStep list"
  can_satisfy_all_requirements :: bool
  any_user_input_required :: bool
  question_to_user :: "string option"

datatype execution_status = Success | Failure

record ExecutorStep =
  step_number :: int
  terminal_command :: string
  execution_status :: execution_status
  command_changed :: bool
  updated_command :: "string option"
  challenges_faced :: "string option"

record AllExecutorSteps =
  all_executor_steps :: "ExecutorStep list"
  can_satisfy_all_requirements :: bool
  any_user_input_required :: bool
  question_to_user :: "string option"

record QCStep =
  requirement_number :: int
  requirement_specification :: string
  relevant_available_files :: "string list"
  requirement_satisfied_successfully :: bool
  reasoning :: string

record AllQCSteps =
  all_qc_steps :: "QCStep list"
  all_requirements_satisfied :: bool
  any_user_input_required :: bool
  question_to_user :: "string option"

text \<open>
  The \<open>output_type\<close> of an agent names one of the four container classes, and the
  \<open>final_output\<close> of a run is an instance of one of them.
\<close>

datatype output_class =
    AllRequirementsAnalysis_cls
  | AllPlannerSteps_cls
  | AllExecutorSteps_cls
  | AllQCSteps_cls

datatype final_output =
    AnalysisOutput AllRequirementsAnalysis
  | PlannerOutput AllPlannerSteps
  | ExecutorOutput AllExecutorSteps
  | QCOutput AllQCSteps

text \<open>
  Attribute access on a final output, whichever of the four classes it belongs to:
  \<open>final_output.any_user_input_required\<close> and \<open>final_output.question_to_user\<close>.
\<close>

fun get_any_user_input_required :: "final_output \<Rightarrow> bool" where
  "get_any_user_input_required (AnalysisOutput x) = AllRequirementsAnalysis.any_user_input_required x"
| "get_any_user_input_required (PlannerOutput x) = AllPlannerSteps.any_user_input_required x"
| "get_any_user_input_required (ExecutorOutput x) = AllExecutorSteps.any_user_input_required x"
| "get_any_user_input_required (QCOutput x) = AllQCSteps.any_user_input_required x"

fun get_question_to_user :: "final_output \<Rightarrow> string option" where
  "get_question_to_user (AnalysisOutput x) = AllRequirementsAnalysis.question_to_user x"
| "get_question_to_user (PlannerOutput x) = AllPlannerSteps.question_to_user x"
| "get_question_to_user (ExecutorOutput x) = AllExecutorSteps.question_to_user x"
| "get_question_to_user (QCOutput x) = AllQCSteps.question_to_user x"

subsection \<open>The fields of an instance\<close>

text \<open>
  The fields an instance carries, by name and in declaration order, with their values
  as plain Python data; this is the dictionary view of a pydantic object.
\<close>

datatype pyval =
    PyNone
  | PyBool bool
  | PyInt int
  | PyStr string
  | PyList "pyval list"
  | PyDict "(string \<times> pyval) list"

definition py_optional :: "('a \<Rightarrow> pyval) \<Rightarrow> 'a option \<Rightarrow> pyval" where
  "py_optional f x = (case x of None \<Rightarrow> PyNone | Some v \<Rightarrow> f v)"

definition dump_RequirementAnalysis :: "RequirementAnalysis \<Rightarrow> pyval" where
  "dump_RequirementAnalysis x = PyDict
     [(''requirement_number'', PyInt (RequirementAnalysis.requirement_number x)),
      (''requirement_specification'', PyStr (RequirementAnalysis.requirement_specification x)),
      (''relevant_available_files'', PyList (map PyStr (RequirementAnalysis.relevant_available_files x))),
      (''requirement_satisfied_already'', PyBool (requirement_satisfied_already x)),
      (''possible_to_satisfy_requirement'', py_optional PyBool (possible_to_satisfy_requirement x)),
      (''plan_of_action'', py_optional PyStr (plan_of_action x)),
      (''reasoning'', PyStr (RequirementAnalysis.reasoning x))]"

definition dump_PlannerStep :: "PlannerStep \<Rightarrow> pyval" where
  "dump_PlannerStep x = PyDict
     [(''step_number'', PyInt (PlannerStep.step_number x)),
      (''description'', PyStr (description x)),
      (''terminal_command'', PyStr (PlannerStep.terminal_command x)),
      (''reasoning'', PyStr (PlannerStep.reasoning x))]"

definition dump_ExecutorStep :: "ExecutorStep \<Rightarrow> pyval" where
  "dump_ExecutorStep x = PyDict
     [(''step_number'', PyInt (ExecutorStep.step_number x)),
      (''terminal_command'', PyStr (ExecutorStep.terminal_command x)),
      (''execution_status'',
         PyStr (case ExecutorStep.execution_status x of Success \<Rightarrow> ''Success'' | Failure \<Rightarrow> ''Failure'')),
      (''command_changed'', PyBool (command_changed x)),
      (''updated_command'', py_optional PyStr (updated_command x)),
      (''challenges_faced'', py_optional PyStr (challenges_faced x))]"

definition dump_QCStep :: "QCStep \<Rightarrow> pyval" where
  "dump_QCStep x = PyDict
     [(''requirement_number'', PyInt (QCStep.requirement_number x)),
      (''requirement_specification'', PyStr (QCStep.requirement_specification x)),
      (''relevant_available_files'', PyList (map PyStr (QCStep.relevant_available_files x))),
      (''requirement_satisfied_successfully'', PyBool (requirement_satisfied_successfully x)),
      (''reasoning'', PyStr (QCStep.reasoning x))]"

fun model_fields :: "final_output \<Rightarrow> (string \<times> pyval) list" where
  "model_fields (AnalysisOutput x) =
     [(''all_requirements_analysis'', PyList (map dump_RequirementAnalysis (all_requirements_analysis x))),
      (''can_satisfy_all_requirements'', PyBool (AllRequirementsAnalysis.can_satisfy_all_requirements x)),
      (''any_user_input_required'', PyBool (AllRequirementsAnalysis.any_user_input_required x)),
      (''question_to_user'', py_optional PyStr (AllRequirementsAnalysis.question_to_user x))]"
| "model_fields (PlannerOutput x) =
     [(''all_planner_steps'', PyList (map dump_PlannerStep (all_planner_steps x))),
      (''can_satisfy_all_requirements'', PyBool (AllPlannerSteps.can_satisfy_all_requirements x)),
      (''any_user_input_required'', PyBool (AllPlannerSteps.any_user_input_required x)),
      (''question_to_user'', py_optional PyStr (AllPlannerSteps.question_to_user x))]"
| "model_fields (ExecutorOutput x) =
     [(''all_executor_steps'', PyList (map dump_ExecutorStep (all_executor_steps x))),
      (''can_satisfy_all_requirements'', PyBool (AllExecutorSteps.can_satisfy_all_requirements x)),
      (''any_user_input_required'', PyBool (AllExecutorSteps.any_user_input_required x)),
      (''question_to_user'', py_optional PyStr (AllExecutorSteps.question_to_user x))]"
| "model_fields (QCOutput x) =
     [(''all_qc_steps'', PyList (map dump_QCStep (all_qc_steps x))),
      (''all_requirements_satisfied'', PyBool (all_requirements_satisfied x)),
      (''any_user_input_required'', PyBool (AllQCSteps.any_user_input_required x)),
      (''question_to_user'', py_optional PyStr (AllQCSteps.question_to_user x))]"

text \<open>All values stored under one field name.\<close>

definition field_values :: "string \<Rightarrow> final_output \<Rightarrow> pyval list" where
  "field_values k out = map snd (filter (\<lambda>kv. fst kv = k) (model_fields out))"

section \<open>Agent roles\<close>

record agent =
  name :: string
  instructions :: string
  model :: string
  tools :: "string list"
  output_type :: output_class

definition ANALYZER_INSTRUCTIONS :: string where
  "ANALYZER_INSTRUCTIONS =
     ''\<newline>'' @
     ''Your goal is to thoroughly understand the client requirements and decide if they can be achieved or not with the available input files.\<newline>'' @
     ''You are known for your exceptional ability to clearly understand the client's requirements and decide if those targets are achieveable using the available files and tools.\<newline>'' @
     ''You will raise a flag if you find that we do not have the necessary files or tools to deliver the client's expectations.\<newline>''"

definition PLANNER_INSTRUCTIONS :: string where
  "PLANNER_INSTRUCTIONS =
     ''\<newline>'' @
     ''You are an expert task planner.\<newline>'' @
     ''You are known for your exceptional ability to understand the client requirements, the available inputs, the desired output and the available tools in hand to devise a detailed step-by-step plan.\<newline>'' @
     ''Clearly understand the analysis client requirements, the analysis performed by the Client Requirements Analyst and the available input files and set out a detailed step by step plan to achieve the desired outcome.\<newline>''"

definition EXECUTOR_INSTRUCTIONS :: string where
  "EXECUTOR_INSTRUCTIONS =
     ''\<newline>'' @
     ''You are an expert task executor. You are known for your exceptional ability to understand the given sequence of steps and execute them successfully using the available tools.\<newline>'' @
     ''Execute the sequence of steps provided to you.\<newline>''"

definition QC_INSTRUCTIONS :: string where
  "QC_INSTRUCTIONS =
     ''\<newline>'' @
     ''You are an expert quality checker. You are known for your exceptional ability to understand the given client requirements and check if they have been satisfied or not.\<newline>'' @
     ''Thoroughly understand the client requirements, compare it available files and check if all the requirements have been met or not.\<newline>'' @
     ''You will raise a flag if you find that the client's expectations are not successfully met.\<newline>''"

definition gemini_model :: string where
  "gemini_model = ''gemini-1.5-flash-latest''"

definition analyzer_agent :: agent where
  "analyzer_agent =
     \<lparr>name = ''Client Requirements Analyst'',
      instructions = ANALYZER_INSTRUCTIONS,
      model = gemini_model,
      tools = [''get_current_os'', ''execute_terminal_command''],
      output_type = AllRequirementsAnalysis_cls\<rparr>"

definition planner_agent :: agent where
  "planner_agent =
     \<lparr>name = ''Senior Media Post-Production Task Planner'',
      instructions = PLANNER_INSTRUCTIONS,
      model = gemini_model,
      tools = [''get_current_os'', ''execute_terminal_command''],
      output_type = AllPlannerSteps_cls\<rparr>"

definition executor_agent :: agent where
  "executor_agent =
     \<lparr>name = ''Senior Media Post-Production Client Delivery Expert'',
      instructions = EXECUTOR_INSTRUCTIONS,
      model = gemini_model,
      tools = [''get_current_os'', ''execute_terminal_command''],
      output_type = AllExecutorSteps_cls\<rparr>"

definition qc_agent :: agent where
  "qc_agent =
     \<lparr>name = ''Senior Media Post-Production Quality Checker'',
      instructions = QC_INSTRUCTIONS,
      model = gemini_model,
      tools = [''get_current_os'', ''execute_terminal_command''],
      output_type = AllQCSteps_cls\<rparr>"

section \<open>The outside world\<close>

text \<open>
  What the program does to the outside is recorded as a trace of events, oldest first:
  text written to standard output or standard error, a call of \<open>Runner.run_streamed\<close>
  with its agent and input transcript, and a line read by \<open>input\<close> with its prompt.
\<close>

datatype event =
    Stdout string
  | Stderr string
  | RunStreamed agent "message list"
  | Input string string

text \<open>
  The stream events that \<open>parse_event\<close> tells apart: the three run-item events it
  prints (by \<open>event.name\<close>, with the parts of \<open>raw_item\<close> it reads), any other run-item
  event, the agent-updated event, and events of any other type.
\<close>

datatype stream_event =
    LlmResponseChunk string
  | ToolCalled string string
  | ToolOutput string
  | OtherRunItem
  | AgentUpdated string
  | OtherEvent

text \<open>
  What the program reads from the object returned by \<open>Runner.run_streamed\<close>: the
  events of \<open>stream_events()\<close>, \<open>final_output\<close>, \<open>last_agent\<close> and the list returned by
  \<open>to_input_list()\<close>.
\<close>

record run_result =
  stream_events :: "stream_event list"
  final_output :: final_output
  last_agent :: agent
  to_input_list :: "message list"

text \<open>What \<open>subprocess.run\<close> does with a command: it completes, or it raises.\<close>

datatype subprocess_outcome =
    CompletedProcess string string int
  | FileNotFoundError
  | OtherException string

text \<open>
  The collaborators the program calls but does not define. \<open>subprocess_run\<close> is
  \<open>subprocess.run(command, shell=True, capture_output=True, text=True)\<close>, where
  \<open>CompletedProcess out err rc\<close> carries stdout, stderr and the return code and
  \<open>OtherException msg\<close> is an exception that is not a FileNotFoundError, with its
  \<open>str\<close>. \<open>platform_system\<close> is \<open>platform.system()\<close>, which returns a name or raises
  (\<open>Inl\<close> the message). \<open>getenv\<close> is \<open>os.getenv\<close> after \<open>load_dotenv()\<close>.
  \<open>genai_configure\<close> is \<open>genai.configure(api_key=...)\<close>: \<open>None\<close> when it returns,
  \<open>Some msg\<close> when it raises an exception whose \<open>str\<close> is \<open>msg\<close>. \<open>run_streamed\<close> is
  the agent runtime with the model behind it and \<open>input_line\<close> is the user at the
  terminal; both may depend on everything that happened before, so they take the trace
  so far. \<open>model_dump_json\<close> is pydantic's \<open>model_dump_json(indent=2)\<close>. The runtime
  and the user are taken to answer every call.
\<close>

record env =
  subprocess_run :: "string \<Rightarrow> subprocess_outcome"
  platform_system :: "string + string"
  getenv :: "string \<Rightarrow> string option"
  genai_configure :: "string option \<Rightarrow> string option"
  run_streamed :: "event list \<Rightarrow> agent \<Rightarrow> message list \<Rightarrow> run_result"
  input_line :: "event list \<Rightarrow> string \<Rightarrow> string"
  model_dump_json :: "final_output \<Rightarrow> string"

text \<open>\<open>print(s)\<close> writes \<open>s\<close> and a newline; \<open>print(s, end="")\<close> writes \<open>s\<close> alone.\<close>

definition print :: "string \<Rightarrow> event list \<Rightarrow> event list" where
  "print s t = t @ [Stdout (s @ ''\<newline>'')]"

definition print_noend :: "string \<Rightarrow> event list \<Rightarrow> event list" where
  "print_noend s t = t @ [Stdout s]"

definition print_stderr :: "string \<Rightarrow> event list \<Rightarrow> event list" where
  "print_stderr s t = t @ [Stderr (s @ ''\<newline>'')]"

text \<open>An f-string field holding an optional string: \<open>None\<close> is shown as \<open>None\<close>.\<close>

definition format_optional :: "string option \<Rightarrow> string" where
  "format_optional x = (case x of None \<Rightarrow> ''None'' | Some s \<Rightarrow> s)"

section \<open>Printing stream events\<close>

definition GREEN :: string where
  "GREEN = CHR 0x1B # ''[92m''"

definition RESET :: string where
  "RESET = CHR 0x1B # ''[0m''"

definition parse_event :: "stream_event \<Rightarrow> event list \<Rightarrow> event list" where
  "parse_event ev t =
     (case ev of
        LlmResponseChunk item \<Rightarrow> print_noend (GREEN @ item @ RESET) t
      | ToolCalled tool_name arguments \<Rightarrow>
          print (GREEN @ ''> Tool Args: '' @ arguments @ RESET)
            (print (GREEN @ ''> Tool Called: '' @ tool_name @ RESET)
              (print [] t))
      | ToolOutput out \<Rightarrow> print (GREEN @ ''> Tool Output: '' @ out @ RESET) t
      | OtherRunItem \<Rightarrow> t
      | AgentUpdated agent_name \<Rightarrow> print (GREEN @ ''> Current Agent: '' @ agent_name @ RESET) t
      | OtherEvent \<Rightarrow> t)"

section \<open>Shell tool adapter\<close>


definition quote :: char where
  "quote = CHR 0x27"

text \<open>
  \<open>execute_terminal_command\<close>: the \<open>try\<close> body and its two handlers. An exception
  raised inside a handler is not caught by the other handler of the same \<open>try\<close>.
\<close>

definition execute_terminal_command ::
  "env \<Rightarrow> string \<Rightarrow> event list \<Rightarrow> (py_exception + string) \<times> event list" where
  "execute_terminal_command e command t =
     (case subprocess_run e command of
        CompletedProcess out err rc \<Rightarrow>
          (Inr (json_dumps [(''stdout'', JString out), (''stderr'', JString err),
                           (''return_code'', JInt rc)]), t)
      | FileNotFoundError \<Rightarrow>
          (case (if command \<noteq> [] then getitem0 (str_split command) else Inr []) of
             Inl exn \<Rightarrow> (Inl exn, t)
           | Inr cmd_name \<Rightarrow>
               (let error_msg = ''Error: The shell or command '' @ [quote] @ cmd_name @ [quote]
                                  @ '' was not found.''
                in (Inr (json_dumps [(''stdout'', JString []), (''stderr'', JString error_msg),
                                     (''return_code'', JInt 127)]),
                    print_stderr error_msg t)))
      | OtherException msg \<Rightarrow>
          (let error_msg = ''An unexpected error occurred while executing '' @ [quote] @ command
                             @ [quote] @ '': '' @ msg
           in (Inr (json_dumps [(''stdout'', JString []), (''stderr'', JString error_msg),
                                (''return_code'', JInt (- 1))]),
               print_stderr error_msg t)))"

section \<open>Interactive step runner\<close>

text \<open>
  One pass through the head of the loop in \<open>process_step\<close>: the call of
  \<open>Runner.run_streamed\<close> and the printing of every stream event.
\<close>

definition invoke :: "env \<Rightarrow> agent \<Rightarrow> message list \<Rightarrow> event list \<Rightarrow> run_result \<times> event list" where
  "invoke e a messages t =
     (let result = run_streamed e t a messages
      in (result, foldl (\<lambda>t' ev. parse_event ev t') (t @ [RunStreamed a messages]) (stream_events result)))"

text \<open>
  The branch taken when \<open>any_user_input_required\<close> holds: print the question, read a
  line, and build the next transcript.
\<close>

definition ask_user :: "env \<Rightarrow> run_result \<Rightarrow> event list \<Rightarrow> message list \<times> event list" where
  "ask_user e result t =
     (let t1 = print (''\<newline>'' @ name (last_agent result) @ '' >> ''
                       @ format_optional (get_question_to_user (final_output result))) t;
          user_input = input_line e t1 ''User Response >> '';
          messages = to_input_list result
      in (messages @ [user_message user_input], t1 @ [Input ''User Response >> '' user_input]))"

text \<open>
  The loop \<open>while True\<close> may run forever, so \<open>process_step\<close> is a partial function:
  \<open>None\<close> stands for a call that never returns.
\<close>

partial_function (option) process_step ::
  "env \<Rightarrow> agent \<Rightarrow> message list \<Rightarrow> event list \<Rightarrow> (run_result \<times> event list) option" where
  "process_step e a messages t =
     (case invoke e a messages t of
        (result, t1) \<Rightarrow>
          if get_any_user_input_required (final_output result)
          then (case ask_user e result t1 of (messages', t2) \<Rightarrow> process_step e a messages' t2)
          else Some (result, print ''\<newline>'' t1))"

section \<open>Pipeline orchestrator\<close>

definition ANALYZER_PROMPT :: string where
  "ANALYZER_PROMPT =
     ''\<newline>'' @
     ''OVERALL WORKFLOW: Analysis (We are here now) --> Task Planning --> Execution --> Quality Check\<newline>'' @
     ''INSTRUCTIONS:\<newline>'' @
     ''We need to deliver the media package as per the specifications mentioned in the client's requirements document.\<newline>'' @
     ''Analyse the client requirements thoroughly and compare it to the available input files.\<newline>'' @
     ''Decide if it is possible to achieve the expectations using the available input files and tools.\<newline>'' @
     ''\<newline>'' @
     ''AVAILABLE TOOLS: You can use FFMPEG, FFPROBE, ImageMagick and other terminal commands as required.\<newline>'' @
     ''WORKING FOLDER: ./assets (All input files and requirements are in this folder)\<newline>'' @
     ''IMPORTANT: You are only an analyst. Do not perform any actions or modify any files.\<newline>'' @
     ''ASK QUESTIONS: If you need user input, please ask.\<newline>''"

definition PLANNER_PROMPT :: string where
  "PLANNER_PROMPT =
     ''\<newline>'' @
     ''OVERALL WORKFLOW: Analysis --> Task Planning (We are here now) --> Execution --> Quality Check\<newline>'' @
     ''INSTRUCTIONS:\<newline>'' @
     ''Create a detailed step-by-step plan to achieve the desired output based on the previous analysis.\<newline>'' @
     ''All tasks like transformation, extraction, renaming etc should be done in a separate sub-directory called 'temp'.\<newline>'' @
     ''The 'temp' folder should be created in the './assets' folder. Creating this sub-directory should be the first step if it doesn't exist.\<newline>'' @
     ''Each terminal command should be complete and self-contained.\<newline>'' @
     ''\<newline>'' @
     ''CONTEXT: The output of the previous 'Analysis' step is attached above.\<newline>'' @
     ''AVAILABLE TOOLS: You can use FFMPEG, FFPROBE, ImageMagick and other terminal commands.\<newline>'' @
     ''WORKING FOLDER: ./assets\<newline>'' @
     ''IMPORTANT: You are only a task planner. The actual execution will be performed later.\<newline>''"

definition EXECUTOR_PROMPT :: string where
  "EXECUTOR_PROMPT =
     ''\<newline>'' @
     ''OVERALL WORKFLOW: Analysis --> Task Planning --> Execution (We are here now) --> Quality Check\<newline>'' @
     ''INSTRUCTIONS:\<newline>'' @
     ''You have been provided with a step-by-step plan. Execute the plan and record your observations.\<newline>'' @
     ''If any step fails, analyse the reason, make necessary modifications to the command if needed, and try again until it succeeds.\<newline>'' @
     ''\<newline>'' @
     ''CONTEXT: The output of the previous 'Analysis' and 'Task Planning' steps are attached.\<newline>'' @
     ''AVAILABLE TOOLS: You can use FFMPEG, FFPROBE, ImageMagick and other terminal commands.\<newline>'' @
     ''WORKING FOLDER: ./assets\<newline>'' @
     ''IMPORTANT: Keep task executions safe and localized to the working folder.\<newline>''"

definition QC_PROMPT :: string where
  "QC_PROMPT =
     ''\<newline>'' @
     ''OVERALL WORKFLOW: Analysis --> Task Planning --> Execution --> Quality Check (We are here now)\<newline>'' @
     ''INSTRUCTIONS:\<newline>'' @
     ''Check if the available files (input files and generated files in the temp folder) satisfy the client's requirements.\<newline>'' @
     ''You are allowed to make minor modifications if needed (like renaming files or cleaning up unnecessary files in the temp directory).\<newline>'' @
     ''\<newline>'' @
     ''CONTEXT: The outputs of 'Analysis', 'Task Planning' and 'Execution' are attached.\<newline>'' @
     ''AVAILABLE TOOLS: You can use FFMPEG, FFPROBE, ImageMagick and other terminal commands.\<newline>'' @
     ''WORKING FOLDER: ./assets\<newline>'' @
     ''IMPORTANT: Keep task executions safe and localized to the working folder.\<newline>''"

text \<open>
  \<open>main\<close>, statement by statement. Each \<open>await process_step\<close> may never return,
  and then nothing after it happens: the steps are chained in the option monad.
\<close>

definition main :: "env \<Rightarrow> event list \<Rightarrow> event list option" where
  "main e t0 = do {
     let messages = [user_message ANALYZER_PROMPT];
     let t = print ''----- STARTING ANALYSIS -----'' t0;
     (result_1, t) \<leftarrow> process_step e analyzer_agent messages t;
     let output_1 = model_dump_json e (final_output result_1);
     let t = print output_1 t;
     let messages = to_input_list result_1 @ [user_message PLANNER_PROMPT];
     let t = print ''----- STARTING PLANNING -----'' t;
     (result_2, t) \<leftarrow> process_step e planner_agent messages t;
     let output_2 = model_dump_json e (final_output result_2);
     let t = print output_2 t;
     let messages = to_input_list result_2 @ [user_message EXECUTOR_PROMPT];
     let t = print ''----- STARTING EXECUTION -----'' t;
     (result_3, t) \<leftarrow> process_step e executor_agent messages t;
     let output_3 = model_dump_json e (final_output result_3);
     let t = print output_3 t;
     let messages = to_input_list result_3 @ [user_message QC_PROMPT];
     let t = print ''----- STARTING QUALITY CHECK -----'' t;
     (result_4, t) \<leftarrow> process_step e qc_agent messages t;
     let output_4 = model_dump_json e (final_output result_4);
     let t = print output_4 t;
     Some (print ''----- WORKFLOW COMPLETE -----'' t)
   }"

text \<open>
  The module from top to bottom: the API client is configured first, and a failure
  there prints a diagnostic and leaves through \<open>sys.exit(1)\<close>; otherwise \<open>main\<close> runs
  and the process ends with status 0. The result is the exit status and the trace.
\<close>

definition program :: "env \<Rightarrow> event list \<Rightarrow> (int \<times> event list) option" where
  "program e t =
     (case genai_configure e (getenv e ''GEMINI_API_KEY'') of
        Some msg \<Rightarrow>
          Some (1, print (''Error configuring Gemini API: '' @ msg @ ''\<newline>'' @
                          ''Please ensure your GEMINI_API_KEY is set in the .env file.'') t)
      | None \<Rightarrow> (case main e t of None \<Rightarrow> None | Some t' \<Rightarrow> Some (0, t')))"

section \<open>Rounds of the clarification loop\<close>

text \<open>
  The vocabulary for statements about \<open>process_step\<close>. \<open>clarify\<close> is one round trip of
  the loop body when the agent asks: it yields the transcript and the trace with which
  the loop starts over. \<open>loop_state k\<close> is the transcript and trace at the head of the
  loop once \<open>k\<close> round trips have been made, \<open>response_at k\<close> is the invocation made
  there, and \<open>asks_at k\<close> says that its structured output asks for user input.
\<close>

definition clarify :: "env \<Rightarrow> agent \<Rightarrow> message list \<Rightarrow> event list \<Rightarrow> message list \<times> event list" where
  "clarify e a messages t = (case invoke e a messages t of (result, t1) \<Rightarrow> ask_user e result t1)"

fun loop_state :: "env \<Rightarrow> agent \<Rightarrow> nat \<Rightarrow> message list \<Rightarrow> event list \<Rightarrow> message list \<times> event list" where
  "loop_state e a 0 messages t = (messages, t)"
| "loop_state e a (Suc k) messages t =
     (case clarify e a messages t of (messages', t') \<Rightarrow> loop_state e a k messages' t')"

definition response_at :: "env \<Rightarrow> agent \<Rightarrow> message list \<Rightarrow> event list \<Rightarrow> nat \<Rightarrow> run_result \<times> event list" where
  "response_at e a messages t k =
     (case loop_state e a k messages t of (messages', t') \<Rightarrow> invoke e a messages' t')"

definition asks_at :: "env \<Rightarrow> agent \<Rightarrow> message list \<Rightarrow> event list \<Rightarrow> nat \<Rightarrow> bool" where
  "asks_at e a messages t k =
     get_any_user_input_required (final_output (fst (response_at e a messages t k)))"

text \<open>The calls of \<open>Runner.run_streamed\<close> that a trace records, in order.\<close>

fun invocations :: "event list \<Rightarrow> (agent \<times> message list) list" where
  "invocations [] = []"
| "invocations (RunStreamed a messages # t) = (a, messages) # invocations t"
| "invocations (ev # t) = invocations t"

section \<open>Sample worlds\<close>

text \<open>
  Concrete collaborators on which the theorems below are exercised. In
  \<open>sample_env asks\<close> no shell is installed, the API key is not set, the client
  library accepts that, and every agent run answers \<open>ok\<close>; its structured output
  asks the user a question exactly when \<open>asks\<close> holds of the trace so far.
\<close>

definition sample_output :: "output_class \<Rightarrow> bool \<Rightarrow> string option \<Rightarrow> final_output" where
  "sample_output c ask q =
     (case c of
        AllRequirementsAnalysis_cls \<Rightarrow>
          AnalysisOutput \<lparr>all_requirements_analysis = [], can_satisfy_all_requirements = True,
                           any_user_input_required = ask, question_to_user = q\<rparr>
      | AllPlannerSteps_cls \<Rightarrow>
          PlannerOutput \<lparr>all_planner_steps = [], can_satisfy_all_requirements = True,
                          any_user_input_required = ask, question_to_user = q\<rparr>
      | AllExecutorSteps_cls \<Rightarrow>
          ExecutorOutput \<lparr>all_executor_steps = [], can_satisfy_all_requirements = True,
                           any_user_input_required = ask, question_to_user = q\<rparr>
      | AllQCSteps_cls \<Rightarrow>
          QCOutput \<lparr>all_qc_steps = [], all_requirements_satisfied = False,
                     any_user_input_required = ask, question_to_user = q\<rparr>)"

definition sample_reply :: "agent \<Rightarrow> message list \<Rightarrow> bool \<Rightarrow> run_result" where
  "sample_reply a messages ask =
     \<lparr>stream_events = [AgentUpdated (name a), LlmResponseChunk ''ok''],
      final_output = sample_output (output_type a) ask (if ask then Some ''Which file?'' else None),
      last_agent = a,
      to_input_list = messages @ [[(''role'', ''assistant''), (''content'', ''ok'')]]\<rparr>"

definition sample_env :: "(event list \<Rightarrow> bool) \<Rightarrow> env" where
  "sample_env asks =
     \<lparr>subprocess_run = (\<lambda>command. FileNotFoundError),
      platform_system = Inr ''Linux'',
      getenv = (\<lambda>var. None),
      genai_configure = (\<lambda>key. None),
      run_streamed = (\<lambda>t a messages. sample_reply a messages (asks t)),
      input_line = (\<lambda>t prompt. ''the first one''),
      model_dump_json = (\<lambda>out. ''{}'')\<rparr>"

text \<open>What one run of the sample runtime adds to the trace.\<close>

definition sample_events :: "agent \<Rightarrow> message list \<Rightarrow> event list" where
  "sample_events a messages =
     [RunStreamed a messages,
      Stdout (GREEN @ ''> Current Agent: '' @ name a @ RESET @ ''\<newline>''),
      Stdout (GREEN @ ''ok'' @ RESET)]"

text \<open>The world in which no agent ever asks, and the one in which every run asks.\<close>

definition quiet_env :: env where
  "quiet_env = sample_env (\<lambda>t. False)"

definition asking_env :: env where
  "asking_env = sample_env (\<lambda>t. True)"

text \<open>
  The world in which the runs ask until \<open>n\<close> calls of the runtime have been made and
  the call after them does not.
\<close>

definition patient_env :: "nat \<Rightarrow> env" where
  "patient_env n = sample_env (\<lambda>t. length (invocations t) < n)"

text \<open>
  A world whose client library rejects a missing key, and one in which a command is
  run by a shell and prints \<open>hi\<close>.
\<close>

definition strict_env :: env where
  "strict_env = quiet_env\<lparr>genai_configure :=
     (\<lambda>key. case key of None \<Rightarrow> Some ''No API key provided.'' | Some k \<Rightarrow> None)\<rparr>"

definition shell_env :: env where
  "shell_env = quiet_env\<lparr>subprocess_run := (\<lambda>command. CompletedProcess ''hi\<newline>'' [] 0)\<rparr>"




section \<open>The clarification loop, round by round\<close>

lemma process_step_done:
  "\<not> asks_at e a m t 0 \<Longrightarrow>
   process_step e a m t = Some (fst (invoke e a m t), print ''\<newline>'' (snd (invoke e a m t)))"
  by (subst process_step.simps) (simp add: asks_at_def response_at_def case_prod_beta)

lemma process_step_again:
  "asks_at e a m t 0 \<Longrightarrow>
   process_step e a m t =
     process_step e a (fst (clarify e a m t)) (snd (clarify e a m t))"
  by (subst process_step.simps) (simp add: asks_at_def response_at_def clarify_def case_prod_beta)

lemma response_at_Suc:
  "response_at e a m t (Suc k) = response_at e a (fst (clarify e a m t)) (snd (clarify e a m t)) k"
  by (simp add: response_at_def case_prod_beta)

lemma asks_at_Suc:
  "asks_at e a m t (Suc k) = asks_at e a (fst (clarify e a m t)) (snd (clarify e a m t)) k"
  by (simp add: asks_at_def response_at_Suc)

lemma process_step_after:
  "\<forall>j<k. asks_at e a m t j \<Longrightarrow> \<not> asks_at e a m t k \<Longrightarrow>
   process_step e a m t =
     Some (fst (response_at e a m t k), print ''\<newline>'' (snd (response_at e a m t k)))"
proof (induction k arbitrary: m t)
  case 0
  then show ?case by (simp add: process_step_done response_at_def)
next
  case (Suc k)
  let ?m = "fst (clarify e a m t)" and ?t = "snd (clarify e a m t)"
  from Suc.prems have "asks_at e a m t 0" by blast
  then have step: "process_step e a m t = process_step e a ?m ?t" by (rule process_step_again)
  have "\<forall>j<k. asks_at e a ?m ?t j"
  proof (intro allI impI)
    fix j assume "j < k"
    then have "asks_at e a m t (Suc j)" using Suc.prems(1) by simp
    then show "asks_at e a ?m ?t j" by (simp only: asks_at_Suc)
  qed
  moreover have "\<not> asks_at e a ?m ?t k"
    using Suc.prems(2) by (simp only: asks_at_Suc not_False_eq_True)
  ultimately have "process_step e a ?m ?t =
     Some (fst (response_at e a ?m ?t k), print ''\<newline>'' (snd (response_at e a ?m ?t k)))"
    by (rule Suc.IH)
  then show ?case
    by (simp only: step response_at_Suc)
qed

lemma process_step_Some_rounds:
  assumes "process_step e a m t = Some y"
  shows "\<exists>k. (\<forall>j<k. asks_at e a m t j) \<and> \<not> asks_at e a m t k"
proof (rule process_step.raw_induct
         [where P = "\<lambda>e a m t y. \<exists>k. (\<forall>j<k. asks_at e a m t j) \<and> \<not> asks_at e a m t k",
          OF _ assms])
  fix f e a m t and y :: "run_result \<times> event list"
  assume IH: "\<And>e a m t y. f e a m t = Some y \<Longrightarrow>
                \<exists>k. (\<forall>j<k. asks_at e a m t j) \<and> \<not> asks_at e a m t k"
    and body: "(case invoke e a m t of
                  (result, t1) \<Rightarrow>
                    if get_any_user_input_required (final_output result)
                    then (case ask_user e result t1 of (messages', t2) \<Rightarrow> f e a messages' t2)
                    else Some (result, print ''\<newline>'' t1)) = Some y"
  show "\<exists>k. (\<forall>j<k. asks_at e a m t j) \<and> \<not> asks_at e a m t k"
  proof (cases "asks_at e a m t 0")
    case False
    then show ?thesis by blast
  next
    case True
    let ?m = "fst (clarify e a m t)" and ?t = "snd (clarify e a m t)"
    from True body have "f e a ?m ?t = Some y"
      by (simp add: asks_at_def response_at_def clarify_def case_prod_beta)
    then have "\<exists>k. (\<forall>j<k. asks_at e a ?m ?t j) \<and> \<not> asks_at e a ?m ?t k"
      by (rule IH)
    then obtain k where k: "\<forall>j<k. asks_at e a ?m ?t j" "\<not> asks_at e a ?m ?t k"
      by blast
    have "\<forall>j<Suc k. asks_at e a m t j"
    proof (intro allI impI)
      fix j assume "j < Suc k"
      then show "asks_at e a m t j"
        using True k(1) by (cases j) (simp_all add: asks_at_Suc)
    qed
    moreover have "\<not> asks_at e a m t (Suc k)"
      using k(2) by (simp add: asks_at_Suc)
    ultimately show ?thesis by blast
  qed
qed

lemma process_step_Some_iff:
  "process_step e a m t = Some y \<longleftrightarrow>
   (\<exists>k. (\<forall>j<k. asks_at e a m t j) \<and> \<not> asks_at e a m t k \<and>
        y = (fst (response_at e a m t k), print ''\<newline>'' (snd (response_at e a m t k))))"
proof
  assume y: "process_step e a m t = Some y"
  then obtain k where k: "\<forall>j<k. asks_at e a m t j" "\<not> asks_at e a m t k"
    using process_step_Some_rounds by blast
  from process_step_after [OF k] y show "\<exists>k. (\<forall>j<k. asks_at e a m t j) \<and> \<not> asks_at e a m t k \<and>
        y = (fst (response_at e a m t k), print ''\<newline>'' (snd (response_at e a m t k)))"
    using k by auto
next
  assume "\<exists>k. (\<forall>j<k. asks_at e a m t j) \<and> \<not> asks_at e a m t k \<and>
        y = (fst (response_at e a m t k), print ''\<newline>'' (snd (response_at e a m t k)))"
  then show "process_step e a m t = Some y"
    using process_step_after by blast
qed

lemma process_step_None_iff:
  "process_step e a m t = None \<longleftrightarrow> (\<forall>k. asks_at e a m t k)"
proof
  assume n: "process_step e a m t = None"
  show "\<forall>k. asks_at e a m t k"
  proof (rule ccontr)
    assume "\<not> (\<forall>k. asks_at e a m t k)"
    then obtain k where "\<not> asks_at e a m t k" by blast
    then have "\<exists>k. \<not> asks_at e a m t k \<and> (\<forall>j<k. asks_at e a m t j)"
      using exists_least_iff [of "\<lambda>k. \<not> asks_at e a m t k"] by blast
    then obtain k' where "\<forall>j<k'. asks_at e a m t j" "\<not> asks_at e a m t k'" by blast
    from process_step_after [OF this] n show False by simp
  qed
next
  assume all: "\<forall>k. asks_at e a m t k"
  show "process_step e a m t = None"
  proof (cases "process_step e a m t")
    case None
    then show ?thesis .
  next
    case (Some y)
    then show ?thesis using process_step_Some_rounds all by blast
  qed
qed

section \<open>Calls of the runtime in a trace\<close>

lemma invocations_append: "invocations (t @ u) = invocations t @ invocations u"
  by (induction t rule: invocations.induct) simp_all

lemma invocations_print: "invocations (print s t) = invocations t"
  by (simp add: print_def invocations_append)

lemma invocations_print_noend: "invocations (print_noend s t) = invocations t"
  by (simp add: print_noend_def invocations_append)

lemma invocations_parse_event: "invocations (parse_event ev t) = invocations t"
  by (cases ev) (simp_all add: parse_event_def invocations_print invocations_print_noend)

lemma invocations_parse_events:
  "invocations (foldl (\<lambda>t' ev. parse_event ev t') t evs) = invocations t"
  by (induction evs arbitrary: t) (simp_all add: invocations_parse_event)

lemma invocations_invoke:
  "invocations (snd (invoke e a m t)) = invocations t @ [(a, m)]"
  by (simp add: invoke_def Let_def invocations_parse_events invocations_append)

lemma invocations_ask_user: "invocations (snd (ask_user e r t)) = invocations t"
  by (simp add: ask_user_def Let_def invocations_append invocations_print)

lemma invocations_clarify:
  "invocations (snd (clarify e a m t)) = invocations t @ [(a, m)]"
  by (simp add: clarify_def case_prod_beta invocations_ask_user invocations_invoke)

lemma invocations_loop_state:
  "\<exists>ms. length ms = k \<and> invocations (snd (loop_state e a k m t)) = invocations t @ map (Pair a) ms
        \<and> (k > 0 \<longrightarrow> hd ms = m)"
proof (induction k arbitrary: m t)
  case 0
  then show ?case by simp
next
  case (Suc k)
  obtain ms where ms: "length ms = k"
    "invocations (snd (loop_state e a k (fst (clarify e a m t)) (snd (clarify e a m t))))
       = invocations (snd (clarify e a m t)) @ map (Pair a) ms"
    using Suc.IH by blast
  have "invocations (snd (loop_state e a (Suc k) m t)) = invocations t @ map (Pair a) (m # ms)"
    using ms(2) by (simp add: case_prod_beta invocations_clarify)
  moreover have "length (m # ms) = Suc k" using ms(1) by simp
  ultimately show ?case by (metis list.sel(1) zero_less_Suc)
qed



lemma process_step_result_final:
  assumes "process_step e a m t = Some (r, t')"
  shows "\<not> get_any_user_input_required (final_output r)"
  using assms by (auto simp: process_step_Some_iff asks_at_def)

section \<open>The sample worlds at work\<close>

lemma sample_flag [simp]: "get_any_user_input_required (sample_output c b q) = b"
  by (cases c) (simp_all add: sample_output_def)

lemma sample_question [simp]: "get_question_to_user (sample_output c b q) = q"
  by (cases c) (simp_all add: sample_output_def)

lemma invoke_sample_env:
  "invoke (sample_env asks) a m t = (sample_reply a m (asks t), t @ sample_events a m)"
  by (simp add: invoke_def sample_env_def sample_reply_def sample_events_def parse_event_def
      print_def print_noend_def)

lemma sample_reply_flag [simp]:
  "get_any_user_input_required (final_output (sample_reply a m b)) = b"
  by (simp add: sample_reply_def)

lemma asks_at_sample_env:
  "asks_at (sample_env asks) a m t k = asks (snd (loop_state (sample_env asks) a k m t))"
  by (simp add: asks_at_def response_at_def case_prod_beta invoke_sample_env)

lemma length_invocations_loop_state:
  "length (invocations (snd (loop_state e a k m t))) = length (invocations t) + k"
  using invocations_loop_state [of k e a m t] by auto

lemma asks_at_patient_env:
  "asks_at (patient_env n) a m t k \<longleftrightarrow> length (invocations t) + k < n"
  by (simp add: patient_env_def asks_at_sample_env length_invocations_loop_state)

lemma asks_at_asking_env: "asks_at asking_env a m t k"
  by (simp add: asking_env_def asks_at_sample_env)

lemma asks_at_quiet_env: "\<not> asks_at quiet_env a m t k"
  by (simp add: quiet_env_def asks_at_sample_env)

lemma invocations_sample_events: "invocations (sample_events a m) = [(a, m)]"
  by (simp add: sample_events_def)

lemma invoke_patient_env:
  "invoke (patient_env n) a m t =
     (sample_reply a m (length (invocations t) < n), t @ sample_events a m)"
  by (simp add: patient_env_def invoke_sample_env)

lemma invoke_quiet_env:
  "invoke quiet_env a m t = (sample_reply a m False, t @ sample_events a m)"
  by (simp add: quiet_env_def invoke_sample_env)

lemma input_line_patient_env: "input_line (patient_env n) t p = ''the first one''"
  by (simp add: patient_env_def sample_env_def)

lemma process_step_quiet_env:
  "process_step quiet_env a m t =
     Some (sample_reply a m False, t @ sample_events a m @ [Stdout ''\<newline>\<newline>''])"
  by (subst process_step.simps) (simp add: invoke_quiet_env print_def)




lemma model_dump_json_quiet_env: "model_dump_json quiet_env out = ''{}''"
  by (simp add: quiet_env_def sample_env_def)

section \<open>Interactive step runner: the claims\<close>

text \<open>
  C3. One pass of the Interactive Step Runner, for every role \<open>a\<close> and transcript
  \<open>messages\<close>. The role is invoked once on the transcript. If its structured output
  has \<open>any_user_input_required\<close> set, the question is written to standard output
  after the name of the responding agent, one line is read with the prompt
  \<open>User Response >> \<close>, and the runner starts over with the same role on the
  transcript \<open>to_input_list()\<close> extended by exactly one user message holding that
  line. If the flag is not set, the runner returns this invocation's result (its
  structured output and transcript) after printing an empty line.
\<close>

theorem process_step_clarification_round:
  "(let result = fst (invoke e a messages t);
        t1 = snd (invoke e a messages t);
        t2 = t1 @ [Stdout (''\<newline>'' @ name (last_agent result) @ '' >> ''
                            @ format_optional (get_question_to_user (final_output result))
                            @ ''\<newline>'')];
        user_input = input_line e t2 ''User Response >> ''
    in invocations t1 = invocations t @ [(a, messages)] \<and>
       (get_any_user_input_required (final_output result) \<longrightarrow>
          process_step e a messages t =
            process_step e a
              (to_input_list result @ [[(''role'', ''user''), (''content'', user_input)]])
              (t2 @ [Input ''User Response >> '' user_input])) \<and>
       (\<not> get_any_user_input_required (final_output result) \<longrightarrow>
          process_step e a messages t = Some (result, t1 @ [Stdout ''\<newline>\<newline>''])))"
proof -
  let ?result = "fst (invoke e a messages t)" and ?t1 = "snd (invoke e a messages t)"
  have asks: "process_step e a messages t =
      process_step e a (fst (ask_user e ?result ?t1)) (snd (ask_user e ?result ?t1))"
    if "get_any_user_input_required (final_output ?result)"
    using that by (subst process_step.simps) (simp add: case_prod_beta)
  have stops: "process_step e a messages t = Some (?result, print ''\<newline>'' ?t1)"
    if "\<not> get_any_user_input_required (final_output ?result)"
    using that by (subst process_step.simps) (simp add: case_prod_beta)
  show ?thesis
    unfolding Let_def
  proof (intro conjI impI)
    show "invocations ?t1 = invocations t @ [(a, messages)]"
      by (rule invocations_invoke)
  next
    assume "get_any_user_input_required (final_output ?result)"
    from asks [OF this] show "process_step e a messages t =
        process_step e a
          (to_input_list ?result @
             [[(''role'', ''user''),
               (''content'', input_line e
                  (?t1 @ [Stdout (''\<newline>'' @ name (last_agent ?result) @ '' >> ''
                                   @ format_optional (get_question_to_user (final_output ?result))
                                   @ ''\<newline>'')])
                  ''User Response >> '')]])
          ((?t1 @ [Stdout (''\<newline>'' @ name (last_agent ?result) @ '' >> ''
                            @ format_optional (get_question_to_user (final_output ?result))
                            @ ''\<newline>'')])
             @ [Input ''User Response >> ''
                  (input_line e
                     (?t1 @ [Stdout (''\<newline>'' @ name (last_agent ?result) @ '' >> ''
                                      @ format_optional (get_question_to_user (final_output ?result))
                                      @ ''\<newline>'')])
                     ''User Response >> '')])"
      by (simp add: ask_user_def Let_def print_def user_message_def)
  next
    assume "\<not> get_any_user_input_required (final_output ?result)"
    from stops [OF this]
    show "process_step e a messages t = Some (?result, ?t1 @ [Stdout ''\<newline>\<newline>''])"
      by (simp add: print_def)
  qed
qed

theorem process_step_clarification_round_witness:
  "get_any_user_input_required
     (final_output (fst (invoke (patient_env 1) planner_agent [user_message ''go''] []))) \<and>
   process_step (patient_env 1) planner_agent [user_message ''go''] [] =
     process_step (patient_env 1) planner_agent
       [user_message ''go'', [(''role'', ''assistant''), (''content'', ''ok'')],
        user_message ''the first one'']
       (sample_events planner_agent [user_message ''go''] @
        [Stdout (''\<newline>'' @ name planner_agent @ '' >> Which file?\<newline>''),
         Input ''User Response >> '' ''the first one'']) \<and>
   \<not> get_any_user_input_required
       (final_output (fst (invoke quiet_env planner_agent [user_message ''go''] []))) \<and>
   process_step quiet_env planner_agent [user_message ''go''] [] =
     Some (sample_reply planner_agent [user_message ''go''] False,
           sample_events planner_agent [user_message ''go''] @ [Stdout ''\<newline>\<newline>''])"
proof -
  have asked: "get_any_user_input_required
     (final_output (fst (invoke (patient_env 1) planner_agent [user_message ''go''] [])))"
    by (simp add: invoke_patient_env)
  have quiet: "\<not> get_any_user_input_required
       (final_output (fst (invoke quiet_env planner_agent [user_message ''go''] [])))"
    by (simp add: invoke_quiet_env)
  from asked
    process_step_clarification_round [of "patient_env 1" planner_agent "[user_message ''go'']" "[]"]
  have first: "process_step (patient_env 1) planner_agent [user_message ''go''] [] =
     process_step (patient_env 1) planner_agent
       [user_message ''go'', [(''role'', ''assistant''), (''content'', ''ok'')],
        user_message ''the first one'']
       (sample_events planner_agent [user_message ''go''] @
        [Stdout (''\<newline>'' @ name planner_agent @ '' >> Which file?\<newline>''),
         Input ''User Response >> '' ''the first one''])"
    by (simp add: Let_def input_line_patient_env invoke_patient_env format_optional_def
        user_message_def sample_reply_def)
  from quiet
    process_step_clarification_round [of quiet_env planner_agent "[user_message ''go'']" "[]"]
  have second: "process_step quiet_env planner_agent [user_message ''go''] [] =
     Some (sample_reply planner_agent [user_message ''go''] False,
           sample_events planner_agent [user_message ''go''] @ [Stdout ''\<newline>\<newline>''])"
    by (simp add: Let_def invoke_quiet_env)
  from asked first quiet second show ?thesis by blast
qed

text \<open>
  C6. Every instance of the four container classes carries the clarification pair
  exactly once: one field \<open>any_user_input_required\<close> holding a boolean, the one that
  the runner inspects, and one field \<open>question_to_user\<close> holding \<open>None\<close> or a string.
  And whenever \<open>process_step\<close> returns, what it returns is the result of the latest
  invocation, all earlier invocations asked for user input, and the flag of the
  returned structured output is not set.
\<close>

theorem clarification_request_invariant:
  "field_values ''any_user_input_required'' out = [PyBool (get_any_user_input_required out)] \<and>
   field_values ''question_to_user'' out = [py_optional PyStr (get_question_to_user out)] \<and>
   (process_step e a messages t = Some (result, t') \<longrightarrow>
      (\<exists>k. (\<forall>j<k. asks_at e a messages t j) \<and>
           result = fst (response_at e a messages t k) \<and>
           t' = print ''\<newline>'' (snd (response_at e a messages t k))) \<and>
      \<not> get_any_user_input_required (final_output result))"
proof (intro conjI impI)
  show "field_values ''any_user_input_required'' out = [PyBool (get_any_user_input_required out)]"
    by (cases out) (simp_all add: field_values_def)
  show "field_values ''question_to_user'' out = [py_optional PyStr (get_question_to_user out)]"
    by (cases out) (simp_all add: field_values_def)
next
  assume r: "process_step e a messages t = Some (result, t')"
  then show "\<exists>k. (\<forall>j<k. asks_at e a messages t j) \<and>
           result = fst (response_at e a messages t k) \<and>
           t' = print ''\<newline>'' (snd (response_at e a messages t k))"
    by (auto simp: process_step_Some_iff)
  from r show "\<not> get_any_user_input_required (final_output result)"
    by (rule process_step_result_final)
qed

theorem clarification_request_invariant_witness:
  "process_step quiet_env qc_agent [user_message QC_PROMPT] [] =
     Some (sample_reply qc_agent [user_message QC_PROMPT] False,
           sample_events qc_agent [user_message QC_PROMPT] @ [Stdout ''\<newline>\<newline>'']) \<and>
   \<not> get_any_user_input_required
       (final_output (sample_reply qc_agent [user_message QC_PROMPT] False)) \<and>
   field_values ''any_user_input_required''
       (final_output (sample_reply qc_agent [user_message QC_PROMPT] False)) = [PyBool False] \<and>
   field_values ''question_to_user''
       (final_output (sample_reply qc_agent [user_message QC_PROMPT] False)) = [PyNone]"
proof -
  let ?r = "sample_reply qc_agent [user_message QC_PROMPT] False"
  let ?t = "sample_events qc_agent [user_message QC_PROMPT] @ [Stdout ''\<newline>\<newline>'']"
  have returns: "process_step quiet_env qc_agent [user_message QC_PROMPT] [] = Some (?r, ?t)"
    by (simp add: process_step_quiet_env)
  from returns clarification_request_invariant
         [of "final_output ?r" quiet_env qc_agent "[user_message QC_PROMPT]" "[]" ?r ?t]
  show ?thesis
    by (simp add: py_optional_def sample_reply_def)
qed

text \<open>
  C8. The clarification loop has no iteration bound. \<open>process_step\<close> returns exactly
  when some invocation, reached through invocations that all asked, has a structured
  output whose \<open>any_user_input_required\<close> is false; if the role asks on every
  invocation, \<open>process_step\<close> never returns. And no number of rounds is the largest:
  for every \<open>n\<close> there is a world (the runtime of \<open>patient_env n\<close>) in which the role
  asks in rounds \<open>0..<n\<close>, stops asking in round \<open>n\<close>, and \<open>process_step\<close> returns.
\<close>

theorem clarification_loop_has_no_bound:
  "(process_step e a messages t \<noteq> None \<longleftrightarrow>
      (\<exists>k. (\<forall>j<k. asks_at e a messages t j) \<and> \<not> asks_at e a messages t k)) \<and>
   ((\<forall>k. asks_at e a messages t k) \<longrightarrow> process_step e a messages t = None) \<and>
   (\<forall>n. (\<forall>j<n. asks_at (patient_env n) a messages [] j) \<and>
        \<not> asks_at (patient_env n) a messages [] n \<and>
        process_step (patient_env n) a messages [] \<noteq> None)"
proof -
  have returns_iff: "process_step e a messages t \<noteq> None \<longleftrightarrow>
      (\<exists>k. (\<forall>j<k. asks_at e a messages t j) \<and> \<not> asks_at e a messages t k)"
    using process_step_Some_rounds [of e a messages t] process_step_after [of _ e a messages t]
    by (cases "process_step e a messages t") auto
  have diverges: "(\<forall>k. asks_at e a messages t k) \<longrightarrow> process_step e a messages t = None"
    by (simp add: process_step_None_iff)
  have any_length: "(\<forall>j<n. asks_at (patient_env n) a messages [] j) \<and>
        \<not> asks_at (patient_env n) a messages [] n \<and>
        process_step (patient_env n) a messages [] \<noteq> None" for n
    using process_step_None_iff [of "patient_env n" a messages "[]"]
    by (auto simp: asks_at_patient_env)
  from returns_iff diverges any_length show ?thesis by blast
qed

theorem clarification_loop_has_no_bound_witness:
  "(\<forall>k. asks_at asking_env analyzer_agent [user_message ANALYZER_PROMPT] [] k) \<and>
   process_step asking_env analyzer_agent [user_message ANALYZER_PROMPT] [] = None \<and>
   asks_at (patient_env 2) analyzer_agent [user_message ANALYZER_PROMPT] [] 0 \<and>
   asks_at (patient_env 2) analyzer_agent [user_message ANALYZER_PROMPT] [] 1 \<and>
   \<not> asks_at (patient_env 2) analyzer_agent [user_message ANALYZER_PROMPT] [] 2 \<and>
   process_step (patient_env 2) analyzer_agent [user_message ANALYZER_PROMPT] [] \<noteq> None"
proof -
  let ?m = "[user_message ANALYZER_PROMPT]"
  have always: "\<forall>k. asks_at asking_env analyzer_agent ?m [] k"
    by (simp add: asks_at_asking_env)
  have never_returns: "process_step asking_env analyzer_agent ?m [] = None"
    using clarification_loop_has_no_bound [of asking_env analyzer_agent ?m "[]"] always
    by blast
  have two_rounds:
    "(\<forall>j<2. asks_at (patient_env 2) analyzer_agent ?m [] j) \<and>
     \<not> asks_at (patient_env 2) analyzer_agent ?m [] 2 \<and>
     process_step (patient_env 2) analyzer_agent ?m [] \<noteq> None"
    using clarification_loop_has_no_bound [of asking_env analyzer_agent ?m "[]"]
    by blast
  then have "asks_at (patient_env 2) analyzer_agent ?m [] 0"
    and "asks_at (patient_env 2) analyzer_agent ?m [] 1"
    by simp_all
  with always never_returns two_rounds show ?thesis by blast
qed

section \<open>Pipeline orchestrator: the claims\<close>

lemma main_Some_iff:
  "main e t0 = Some t' \<longleftrightarrow>
   (\<exists>r1 t1 r2 t2 r3 t3 r4 t4.
      process_step e analyzer_agent [user_message ANALYZER_PROMPT]
        (print ''----- STARTING ANALYSIS -----'' t0) = Some (r1, t1) \<and>
      process_step e planner_agent (to_input_list r1 @ [user_message PLANNER_PROMPT])
        (print ''----- STARTING PLANNING -----'' (print (model_dump_json e (final_output r1)) t1))
          = Some (r2, t2) \<and>
      process_step e executor_agent (to_input_list r2 @ [user_message EXECUTOR_PROMPT])
        (print ''----- STARTING EXECUTION -----'' (print (model_dump_json e (final_output r2)) t2))
          = Some (r3, t3) \<and>
      process_step e qc_agent (to_input_list r3 @ [user_message QC_PROMPT])
        (print ''----- STARTING QUALITY CHECK -----'' (print (model_dump_json e (final_output r3)) t3))
          = Some (r4, t4) \<and>
      t' = print ''----- WORKFLOW COMPLETE -----'' (print (model_dump_json e (final_output r4)) t4))"
  unfolding main_def Let_def
  by (auto simp: bind_eq_Some_conv)











text \<open>
  C7. Once the QC stage has returned, \<open>main\<close> halts and reports completion whatever
  the QC output says: for any result \<open>r4\<close> of the QC stage, \<open>main\<close> returns after
  printing that result and the line \<open>----- WORKFLOW COMPLETE -----\<close>, and it calls
  the runtime no more. No field of the QC output is inspected, so there is no loop
  back to planning or execution.
\<close>

theorem pipeline_halts_after_qc:
  assumes "process_step e analyzer_agent [user_message ANALYZER_PROMPT]
             (print ''----- STARTING ANALYSIS -----'' t0) = Some (r1, t1)"
    and "process_step e planner_agent (to_input_list r1 @ [user_message PLANNER_PROMPT])
           (print ''----- STARTING PLANNING -----'' (print (model_dump_json e (final_output r1)) t1))
             = Some (r2, t2)"
    and "process_step e executor_agent (to_input_list r2 @ [user_message EXECUTOR_PROMPT])
           (print ''----- STARTING EXECUTION -----'' (print (model_dump_json e (final_output r2)) t2))
             = Some (r3, t3)"
    and "process_step e qc_agent (to_input_list r3 @ [user_message QC_PROMPT])
           (print ''----- STARTING QUALITY CHECK -----'' (print (model_dump_json e (final_output r3)) t3))
             = Some (r4, t4)"
  shows "main e t0 =
           Some (t4 @ [Stdout (model_dump_json e (final_output r4) @ ''\<newline>''),
                       Stdout ''----- WORKFLOW COMPLETE -----\<newline>'']) \<and>
         invocations (t4 @ [Stdout (model_dump_json e (final_output r4) @ ''\<newline>''),
                            Stdout ''----- WORKFLOW COMPLETE -----\<newline>'']) = invocations t4"
proof -
  have "main e t0 =
          Some (print ''----- WORKFLOW COMPLETE -----'' (print (model_dump_json e (final_output r4)) t4))"
    using assms by (simp only: main_Some_iff) blast
  then show ?thesis
    by (simp add: print_def invocations_append)
qed

theorem pipeline_halts_after_qc_witness:
  "map_option (\<lambda>t. drop (length t - 2) t) (main quiet_env []) =
     Some [Stdout ''{}\<newline>'', Stdout ''----- WORKFLOW COMPLETE -----\<newline>''] \<and>
   map_option (\<lambda>t. map fst (invocations t)) (main quiet_env []) =
     Some [analyzer_agent, planner_agent, executor_agent, qc_agent] \<and>
   (\<forall>m. final_output (sample_reply qc_agent m False) =
      QCOutput \<lparr>all_qc_steps = [], all_requirements_satisfied = False,
                 any_user_input_required = False, question_to_user = None\<rparr>)"
proof -
  define r1 where "r1 = sample_reply analyzer_agent [user_message ANALYZER_PROMPT] False"
  define t1 where "t1 = print ''----- STARTING ANALYSIS -----'' []
     @ sample_events analyzer_agent [user_message ANALYZER_PROMPT] @ [Stdout ''\<newline>\<newline>'']"
  define m2 where "m2 = to_input_list r1 @ [user_message PLANNER_PROMPT]"
  define r2 where "r2 = sample_reply planner_agent m2 False"
  define t2 where "t2 = print ''----- STARTING PLANNING -----''
       (print (model_dump_json quiet_env (final_output r1)) t1)
     @ sample_events planner_agent m2 @ [Stdout ''\<newline>\<newline>'']"
  define m3 where "m3 = to_input_list r2 @ [user_message EXECUTOR_PROMPT]"
  define r3 where "r3 = sample_reply executor_agent m3 False"
  define t3 where "t3 = print ''----- STARTING EXECUTION -----''
       (print (model_dump_json quiet_env (final_output r2)) t2)
     @ sample_events executor_agent m3 @ [Stdout ''\<newline>\<newline>'']"
  define m4 where "m4 = to_input_list r3 @ [user_message QC_PROMPT]"
  define r4 where "r4 = sample_reply qc_agent m4 False"
  define t4 where "t4 = print ''----- STARTING QUALITY CHECK -----''
       (print (model_dump_json quiet_env (final_output r3)) t3)
     @ sample_events qc_agent m4 @ [Stdout ''\<newline>\<newline>'']"
  have s1: "process_step quiet_env analyzer_agent [user_message ANALYZER_PROMPT]
             (print ''----- STARTING ANALYSIS -----'' []) = Some (r1, t1)"
    by (simp add: process_step_quiet_env r1_def t1_def)
  have s2: "process_step quiet_env planner_agent (to_input_list r1 @ [user_message PLANNER_PROMPT])
           (print ''----- STARTING PLANNING -----''
              (print (model_dump_json quiet_env (final_output r1)) t1)) = Some (r2, t2)"
    by (simp add: process_step_quiet_env r2_def t2_def m2_def)
  have s3: "process_step quiet_env executor_agent (to_input_list r2 @ [user_message EXECUTOR_PROMPT])
           (print ''----- STARTING EXECUTION -----''
              (print (model_dump_json quiet_env (final_output r2)) t2)) = Some (r3, t3)"
    by (simp add: process_step_quiet_env r3_def t3_def m3_def)
  have s4: "process_step quiet_env qc_agent (to_input_list r3 @ [user_message QC_PROMPT])
           (print ''----- STARTING QUALITY CHECK -----''
              (print (model_dump_json quiet_env (final_output r3)) t3)) = Some (r4, t4)"
    by (simp add: process_step_quiet_env r4_def t4_def m4_def)
  have calls: "map fst (invocations t4) = [analyzer_agent, planner_agent, executor_agent, qc_agent]"
    by (simp add: t4_def t3_def t2_def t1_def invocations_append invocations_print
        invocations_sample_events)
  have verdict: "final_output (sample_reply qc_agent m False) =
      QCOutput \<lparr>all_qc_steps = [], all_requirements_satisfied = False,
                 any_user_input_required = False, question_to_user = None\<rparr>" for m
    by (simp add: sample_reply_def sample_output_def qc_agent_def)
  from pipeline_halts_after_qc [OF s1 s2 s3 s4]
  have "main quiet_env [] =
           Some (t4 @ [Stdout (model_dump_json quiet_env (final_output r4) @ ''\<newline>''),
                       Stdout ''----- WORKFLOW COMPLETE -----\<newline>''])"
    and "invocations (t4 @ [Stdout (model_dump_json quiet_env (final_output r4) @ ''\<newline>''),
                            Stdout ''----- WORKFLOW COMPLETE -----\<newline>'']) = invocations t4"
    by blast+
  with calls verdict show ?thesis
    by (simp add: model_dump_json_quiet_env)
qed

section \<open>Startup: the claims\<close>

text \<open>
  C4, as stated, fails: in \<open>quiet_env\<close> the variable \<open>GEMINI_API_KEY\<close> is not set and
  \<open>genai.configure\<close> accepts the missing key without raising. The program does not
  stop at startup: all four stages run and the process ends with status 0.
\<close>

theorem missing_api_key_is_not_fatal:
  "getenv quiet_env ''GEMINI_API_KEY'' = None \<and>
   map_option fst (program quiet_env []) = Some 0 \<and>
   map_option (\<lambda>r. map fst (invocations (snd r))) (program quiet_env []) =
     Some [analyzer_agent, planner_agent, executor_agent, qc_agent]"
proof -
  have key: "getenv quiet_env ''GEMINI_API_KEY'' = None"
    and conf: "genai_configure quiet_env None = None"
    by (simp_all add: quiet_env_def sample_env_def)
  show ?thesis
    by (simp add: key conf program_def main_def process_step_quiet_env Let_def print_def
        invocations_append invocations_sample_events)
qed

text \<open>
  C4, amended. If \<open>genai.configure\<close>, called with the value of \<open>GEMINI_API_KEY\<close>,
  raises an exception at startup, the process prints a diagnostic message that carries
  the exception's text and terminates at once with exit status 1; no stage has run,
  the trace gains no call of the runtime.
\<close>

theorem configure_failure_is_fatal:
  assumes "genai_configure e (getenv e ''GEMINI_API_KEY'') = Some msg"
  shows "program e t =
           Some (1, t @ [Stdout (''Error configuring Gemini API: '' @ msg @ ''\<newline>''
                                  @ ''Please ensure your GEMINI_API_KEY is set in the .env file.''
                                  @ ''\<newline>'')]) \<and>
         invocations (t @ [Stdout (''Error configuring Gemini API: '' @ msg @ ''\<newline>''
                                  @ ''Please ensure your GEMINI_API_KEY is set in the .env file.''
                                  @ ''\<newline>'')]) = invocations t"
  using assms by (simp add: program_def print_def invocations_append)

theorem configure_failure_is_fatal_witness:
  "genai_configure strict_env (getenv strict_env ''GEMINI_API_KEY'') = Some ''No API key provided.'' \<and>
   program strict_env [] =
     Some (1, [Stdout (''Error configuring Gemini API: No API key provided.\<newline>''
                        @ ''Please ensure your GEMINI_API_KEY is set in the .env file.\<newline>'')])"
proof -
  have raised: "genai_configure strict_env (getenv strict_env ''GEMINI_API_KEY'')
                  = Some ''No API key provided.''"
    by (simp add: strict_env_def quiet_env_def sample_env_def)
  from configure_failure_is_fatal [OF raised, of "[]"] raised show ?thesis by simp
qed

section \<open>Shell tool adapter: the claims\<close>




text \<open>
  C9. Calling \<open>execute_terminal_command\<close> with the empty string is safe: whatever
  \<open>subprocess.run\<close> does, a JSON string is returned and no exception leaves the
  function. In the not-found branch the guard \<open>if command else ''\<close> supplies the empty
  name, so the message reads \<open>Error: The shell or command '' was not found.\<close>, it is
  printed to standard error, and the result carries it with return code 127.
\<close>

theorem execute_terminal_command_empty_command:
  "(\<exists>js. fst (execute_terminal_command e [] t) = Inr js) \<and>
   (subprocess_run e [] = FileNotFoundError \<longrightarrow>
      execute_terminal_command e [] t =
        (Inr (json_dumps
                [(''stdout'', JString []),
                 (''stderr'', JString (''Error: The shell or command '' @ [quote, quote]
                                        @ '' was not found.'')),
                 (''return_code'', JInt 127)]),
         t @ [Stderr (''Error: The shell or command '' @ [quote, quote]
                       @ '' was not found.\<newline>'')]))"
  by (cases "subprocess_run e []") (simp_all add: execute_terminal_command_def print_stderr_def)

theorem execute_terminal_command_empty_command_witness:
  "subprocess_run quiet_env [] = FileNotFoundError \<and>
   execute_terminal_command quiet_env [] [] =
     (Inr (json_dumps
             [(''stdout'', JString []),
              (''stderr'', JString (''Error: The shell or command '' @ [quote, quote]
                                     @ '' was not found.'')),
              (''return_code'', JInt 127)]),
      [Stderr (''Error: The shell or command '' @ [quote, quote] @ '' was not found.\<newline>'')])"
  using execute_terminal_command_empty_command [of quiet_env "[]"]
  by (simp add: quiet_env_def sample_env_def)

text \<open>
  C1, at the input where it fails. The command is a single space and no shell is
  installed, so \<open>subprocess.run\<close> raises FileNotFoundError. The handler evaluates
  \<open>command.split()[0]\<close>, the guard \<open>if command\<close> lets the non-empty command through,
  \<open>split\<close> yields no word, and the IndexError leaves \<open>execute_terminal_command\<close>:
  no result is returned and nothing is printed.
\<close>

theorem execute_terminal_command_blank_command_raises:
  "subprocess_run quiet_env '' '' = FileNotFoundError \<and>
   str_split '' '' = [] \<and>
   execute_terminal_command quiet_env '' '' [] = (Inl IndexError, [])"
  by (simp add: execute_terminal_command_def quiet_env_def sample_env_def getitem0_def
      str_split_def isspace_def)

text \<open>
  Apart from the call of C1, every call returns the \<open>json.dumps\<close> text of a
  dictionary with the three keys \<open>stdout\<close>, \<open>stderr\<close> and \<open>return_code\<close>.
\<close>

lemma execute_terminal_command_returns_unless_blank:
  assumes "\<not> (subprocess_run e command = FileNotFoundError \<and> command \<noteq> [] \<and> str_split command = [])"
  shows "\<exists>out err rc. fst (execute_terminal_command e command t) =
           Inr (json_dumps [(''stdout'', JString out), (''stderr'', JString err),
                            (''return_code'', JInt rc)])"
proof (cases "subprocess_run e command")
  case (CompletedProcess so se c)
  then show ?thesis by (simp add: execute_terminal_command_def) blast
next
  case (OtherException msg)
  then show ?thesis by (simp add: execute_terminal_command_def Let_def) blast
next
  case FileNotFoundError
  with assms show ?thesis
    by (cases "str_split command")
       (simp_all add: execute_terminal_command_def Let_def getitem0_def, blast+)
qed

text \<open>
  C10, where it fails: the defect of C1 again. On the command-not-found branch, for
  any command that is not empty and holds no word (blanks, tabs, line breaks only),
  \<open>command.split()[0]\<close> raises IndexError in the handler. The call returns no value:
  there is no JSON string, no \<open>stdout\<close> field and no \<open>stderr\<close> field, and nothing has
  been printed.
\<close>

theorem execute_terminal_command_not_found_without_word:
  assumes "subprocess_run e command = FileNotFoundError"
    and "command \<noteq> []"
    and "str_split command = []"
  shows "execute_terminal_command e command t = (Inl IndexError, t)"
  using assms by (simp add: execute_terminal_command_def getitem0_def)

theorem execute_terminal_command_not_found_without_word_witness:
  "subprocess_run quiet_env [CHR 0x09, CHR '' ''] = FileNotFoundError \<and>
   str_split [CHR 0x09, CHR '' ''] = [] \<and>
   execute_terminal_command quiet_env [CHR 0x09, CHR '' ''] [] = (Inl IndexError, [])"
proof -
  have missing: "subprocess_run quiet_env [CHR 0x09, CHR '' ''] = FileNotFoundError"
    by (simp add: quiet_env_def sample_env_def)
  have blank: "str_split [CHR 0x09, CHR '' ''] = []"
    by (simp add: str_split_def isspace_def)
  from execute_terminal_command_not_found_without_word [OF missing _ blank, of "[]"]
    missing blank
  show ?thesis by simp
qed

text \<open>The text returned for a command that prints \<open>hi\<close>, character by character.\<close>

lemma execute_terminal_command_echo_hi:
  "execute_terminal_command shell_env ''echo hi'' [] =
     (Inr (''{'' @ [dquote] @ ''stdout'' @ [dquote] @ '': '' @ [dquote] @ ''hi'' @ [backslash]
           @ ''n'' @ [dquote] @ '', '' @ [dquote] @ ''stderr'' @ [dquote] @ '': '' @ [dquote, dquote]
           @ '', '' @ [dquote] @ ''return_code'' @ [dquote] @ '': 0}''), [])"
  by (simp add: execute_terminal_command_def shell_env_def quiet_env_def sample_env_def
      json_dumps_def dumps_member_def dumps_string_def escape_char_def str_int_def
      str_nat.simps digit_char_def backslash_def dquote_def)

end
